theory Spec2Isabelle
  imports Main "HOL-Library.Char_ord" "HOL-Library.List_Lexorder"
begin

section \<open>Strings and numbers of the host language\<close>

text \<open>
  A string is a list of code units, one \<open>char\<close> per unit (units below 256).  The
  functions below are the string methods the application calls, with the names the
  source uses.
\<close>

text \<open>\<open>s.startsWith(p)\<close>; also the pattern \<open>p%\<close> of \<open>.like('code', `${prefix}%`)\<close>,
  whose prefixes contain no wildcard.\<close>

fun startsWith :: "string \<Rightarrow> string \<Rightarrow> bool" where
  "startsWith s [] = True"
| "startsWith [] (p # ps) = False"
| "startsWith (c # cs) (p # ps) = (c = p \<and> startsWith cs ps)"

text \<open>\<open>s.includes(sub)\<close>: \<open>sub\<close> occurs at some position of \<open>s\<close>.\<close>

fun includes_str :: "string \<Rightarrow> string \<Rightarrow> bool" where
  "includes_str [] sub = (sub = [])"
| "includes_str (c # cs) sub = (startsWith (c # cs) sub \<or> includes_str cs sub)"

text \<open>\<open>s.toUpperCase()\<close> on the letters \<open>a\<close> to \<open>z\<close>; every other unit is kept.\<close>

definition upperChar :: "char \<Rightarrow> char" where
  "upperChar c =
     (let n = (of_char c :: nat) in if 97 \<le> n \<and> n \<le> 122 then char_of (n - 32) else c)"

definition toUpperCase :: "string \<Rightarrow> string" where
  "toUpperCase s = map upperChar s"

text \<open>\<open>s.replace(p, '')\<close> for a string pattern: the first occurrence of \<open>p\<close> is removed.\<close>

fun replaceFirst :: "string \<Rightarrow> string \<Rightarrow> string" where
  "replaceFirst [] p = []"
| "replaceFirst (c # cs) p =
     (if startsWith (c # cs) p then drop (length p) (c # cs) else c # replaceFirst cs p)"

text \<open>A number is an integer or \<open>NaN\<close>; integers are exact below \<open>2^53\<close>, which is the
  range the application works in.\<close>

datatype jsnum = NaN | Num int

fun addNum :: "jsnum \<Rightarrow> int \<Rightarrow> jsnum" where
  "addNum NaN k = NaN"
| "addNum (Num n) k = Num (n + k)"

definition isDigit :: "char \<Rightarrow> bool" where
  "isDigit c = (let n = (of_char c :: nat) in 48 \<le> n \<and> n \<le> 57)"

definition digitVal :: "char \<Rightarrow> nat" where
  "digitVal c = of_char c - 48"

definition digitChar :: "nat \<Rightarrow> char" where
  "digitChar d = char_of (48 + d)"

text \<open>The value of a run of decimal digits, most significant first.\<close>

definition decimalValue :: "string \<Rightarrow> nat" where
  "decimalValue ds = foldl (\<lambda>acc c. 10 * acc + digitVal c) 0 ds"

definition isWhiteSpace :: "char \<Rightarrow> bool" where
  "isWhiteSpace c = (of_char c \<in> {9, 10, 11, 12, 13, 32, 160 :: nat})"

text \<open>
  \<open>parseInt(s)\<close> with no radix: leading white space is skipped, one sign is read, a
  prefix \<open>0x\<close> or \<open>0X\<close> selects base 16, then the longest run of digits of the base
  is read; no digit gives \<open>NaN\<close>.
\<close>

definition parseDigits :: "string \<Rightarrow> nat option" where
  "parseDigits s =
     (let ds = takeWhile isDigit s in if ds = [] then None else Some (decimalValue ds))"

definition isHexDigit :: "char \<Rightarrow> bool" where
  "isHexDigit c =
     (let n = (of_char c :: nat) in
      (48 \<le> n \<and> n \<le> 57) \<or> (97 \<le> n \<and> n \<le> 102) \<or> (65 \<le> n \<and> n \<le> 70))"

definition hexVal :: "char \<Rightarrow> nat" where
  "hexVal c =
     (let n = (of_char c :: nat) in if n \<le> 57 then n - 48 else if 97 \<le> n then n - 87 else n - 55)"

definition parseHex :: "string \<Rightarrow> nat option" where
  "parseHex s =
     (let ds = takeWhile isHexDigit s
      in if ds = [] then None else Some (foldl (\<lambda>acc c. 16 * acc + hexVal c) 0 ds))"

definition parseMagnitude :: "string \<Rightarrow> nat option" where
  "parseMagnitude s =
     (if startsWith s ''0x'' \<or> startsWith s ''0X'' then parseHex (drop 2 s) else parseDigits s)"

definition parseInt :: "string \<Rightarrow> jsnum" where
  "parseInt s =
     (case dropWhile isWhiteSpace s of
        [] \<Rightarrow> NaN
      | c # cs \<Rightarrow>
          if c = CHR ''-'' then
            (case parseMagnitude cs of None \<Rightarrow> NaN | Some n \<Rightarrow> Num (- int n))
          else if c = CHR ''+'' then
            (case parseMagnitude cs of None \<Rightarrow> NaN | Some n \<Rightarrow> Num (int n))
          else
            (case parseMagnitude (c # cs) of None \<Rightarrow> NaN | Some n \<Rightarrow> Num (int n)))"

text \<open>\<open>n.toString()\<close> of a natural number: its decimal digits.\<close>

fun digits :: "nat \<Rightarrow> string" where
  "digits n = (if n < 10 then [digitChar n] else digits (n div 10) @ [digitChar (n mod 10)])"

declare digits.simps [simp del]

fun toString :: "jsnum \<Rightarrow> string" where
  "toString NaN = ''NaN''"
| "toString (Num n) = (if n < 0 then CHR ''-'' # digits (nat (- n)) else digits (nat n))"

text \<open>\<open>s.padStart(n, '0')\<close>.\<close>

definition padStart :: "string \<Rightarrow> nat \<Rightarrow> string" where
  "padStart s n = replicate (n - length s) CHR ''0'' @ s"

section \<open>The mode gate (services/supabaseClient.ts)\<close>

text \<open>
  The two configuration values are strings or absent (\<open>None\<close>).  \<open>!url\<close> holds of an
  absent value and of the empty string.
\<close>

definition falsy :: "string option \<Rightarrow> bool" where
  "falsy v = (case v of None \<Rightarrow> True | Some s \<Rightarrow> s = [])"

definition isMockMode :: "string option \<Rightarrow> string option \<Rightarrow> bool" where
  "isMockMode url key =
     (falsy url \<or> falsy key \<or> (case url of None \<Rightarrow> False | Some u \<Rightarrow> includes_str u ''placeholder''))"

text \<open>The values the client is initialised with: \<open>url || 'https://placeholder.supabase.co'\<close>
  and \<open>key || 'placeholder-key'\<close>.\<close>

definition orElse :: "string option \<Rightarrow> string \<Rightarrow> string" where
  "orElse v d = (case v of None \<Rightarrow> d | Some s \<Rightarrow> if s = [] then d else s)"

definition supabaseUrl :: "string option \<Rightarrow> string" where
  "supabaseUrl url = orElse url ''https://placeholder.supabase.co''"

definition supabaseAnonKey :: "string option \<Rightarrow> string" where
  "supabaseAnonKey key = orElse key ''placeholder-key''"

section \<open>Data model (types.ts)\<close>

datatype UserSegment = YOUNG | ADULT | ADMIN

record InviteCode =
  code :: string
  segment :: UserSegment
  is_used :: bool
  used_by :: "string option"

record UserProfile =
  user_id :: string
  name :: string
  profile_segment :: UserSegment
  is_celiac :: bool
  created_at :: string
  table :: "string option"

datatype PhotoStatus = PENDING | APPROVED | REJECTED

record Photo =
  photo_id :: nat
  photo_user_id :: string
  storage_path :: string
  status :: PhotoStatus
  is_featured :: bool

section \<open>The backend collaborator\<close>

text \<open>
  The backend is a store of three tables and the list of open realtime channels.  Every
  invocation of the client is appended to \<open>calls\<close>, whether it reads or writes.  The
  store answers every request (network failure is outside the model).
\<close>

datatype backend_call =
    Select string
  | Insert string
  | Update string
  | GetSession
  | SignInAnonymously
  | SignInWithPassword
  | SignUp
  | SignInWithOtp
  | SignOut
  | StorageUpload string
  | Subscribe string
  | RemoveChannel string

record backend =
  invites :: "InviteCode list"
  profiles :: "UserProfile list"
  photos :: "Photo list"
  channels :: "string list"
  calls :: "backend_call list"

definition log_call :: "backend_call \<Rightarrow> backend \<Rightarrow> backend" where
  "log_call c b = b\<lparr>calls := calls b @ [c]\<rparr>"

text \<open>\<open>.single()\<close>: the row when exactly one row matches, \<open>null\<close> otherwise.\<close>

fun single :: "'a list \<Rightarrow> 'a option" where
  "single [x] = Some x"
| "single xs = None"

text \<open>\<open>supabase.from('invites').select('*').eq('code', c).single()\<close>\<close>

definition selectInvite :: "string \<Rightarrow> backend \<Rightarrow> InviteCode option \<times> backend" where
  "selectInvite c b =
     (single (filter (\<lambda>r. code r = c) (invites b)), log_call (Select ''invites'') b)"

text \<open>\<open>supabase.from('profiles').select('*').eq('user_id', u).single()\<close>\<close>

definition selectProfile :: "string \<Rightarrow> backend \<Rightarrow> UserProfile option \<times> backend" where
  "selectProfile u b =
     (single (filter (\<lambda>p. user_id p = u) (profiles b)), log_call (Select ''profiles'') b)"

text \<open>\<open>supabase.from('profiles').insert(p)\<close>\<close>

definition insertProfile :: "UserProfile \<Rightarrow> backend \<Rightarrow> backend" where
  "insertProfile p b = log_call (Insert ''profiles'') (b\<lparr>profiles := profiles b @ [p]\<rparr>)"

text \<open>\<open>supabase.from('invites').update({ is_used: true, used_by: u }).eq('code', c)\<close>\<close>

definition markInviteUsed :: "string \<Rightarrow> string \<Rightarrow> backend \<Rightarrow> backend" where
  "markInviteUsed c u b =
     log_call (Update ''invites'')
       (b\<lparr>invites :=
            map (\<lambda>r. if code r = c then r\<lparr>is_used := True, used_by := Some u\<rparr> else r)
              (invites b)\<rparr>)"

text \<open>\<open>supabase.channel(n).on(...).subscribe()\<close> and \<open>supabase.removeChannel(channel)\<close>\<close>

definition subscribe :: "string \<Rightarrow> backend \<Rightarrow> backend" where
  "subscribe n b = log_call (Subscribe n) (b\<lparr>channels := channels b @ [n]\<rparr>)"

definition removeChannel :: "string \<Rightarrow> backend \<Rightarrow> backend" where
  "removeChannel n b = log_call (RemoveChannel n) (b\<lparr>channels := remove1 n (channels b)\<rparr>)"

text \<open>
  The identity service and the object store answer from state the application does not
  hold, so their answers are parameters of each operation.  A sign-in answers with an
  error (its message and its code), with a user identity, or with neither.
\<close>

datatype auth_response = AuthError string string | AuthUser string | AuthNoUser

record service =
  getSession :: "string option"
  signInAnonymously :: auth_response
  signInWithPassword :: "string \<Rightarrow> string \<Rightarrow> auth_response"
  signUp :: "string \<Rightarrow> string \<Rightarrow> auth_response"
  signInWithOtp :: "string \<Rightarrow> string \<Rightarrow> string option"
  upload :: "string \<Rightarrow> string option"
  now_iso :: string
  now_ms :: nat

section \<open>Application state (App.tsx)\<close>

datatype View = View_AUTH | View_HOME | View_ADMIN | View_PROFILE_SETUP

datatype AuthMode = CODE | EMAIL_REQUIRED

text \<open>
  The failures of the auth flow.  The source raises \<open>Error\<close> objects and stores their
  message in \<open>authError\<close>; the model stores the failure itself, \<open>None\<close> for the empty
  message.
\<close>

datatype error =
    MissingCode
  | MissingEmail
  | MissingPassword
  | InvalidCode
  | AlreadyUsed
  | VerifyEmail
  | BackendError string

text \<open>
  The component state the flows read and write, the pending code kept in local storage,
  and the backend behind the client.  The fetched display data (RSVP, messages, photo
  lists, toasts) is not part of the model.
\<close>

record app =
  user :: "UserProfile option"
  isAdmin :: bool
  loading :: bool
  view :: View
  inviteCode :: string
  authError :: "error option"
  authMode :: AuthMode
  email :: string
  password :: string
  magicLinkSent :: bool
  pending_invite_code :: "string option"
  db :: backend

subsection \<open>Session loading\<close>

definition loadUserData :: "bool \<Rightarrow> string \<Rightarrow> app \<Rightarrow> app" where
  "loadUserData mock userId st =
     (if mock then st
      else st\<lparr>db :=
             subscribe ''public:chat_messages''
               (log_call (Select ''photos'')
                 (log_call (Select ''chat_messages'')
                   (log_call (Select ''rsvps'') (db st))))\<rparr>)"

definition loginUser :: "bool \<Rightarrow> UserProfile \<Rightarrow> app \<Rightarrow> app" where
  "loginUser mock profile st =
     (let st1 = st\<lparr>user := Some profile\<rparr> in
      if (name profile = [] \<or> startsWith (name profile) ''Invitado '')
          \<and> profile_segment profile \<noteq> ADMIN
      then st1\<lparr>view := View_PROFILE_SETUP\<rparr>
      else
        loadUserData mock (user_id profile)
          (st1\<lparr>isAdmin := (if profile_segment profile = ADMIN then True else isAdmin st1),
                view := View_HOME\<rparr>))"

text \<open>
  The startup effect: \<open>initApp\<close> fetches the two configuration rows and restores a
  session; the effect then opens the theme subscription.  \<open>appUnmount\<close> is the effect's
  cleanup.
\<close>

definition initApp :: "bool \<Rightarrow> service \<Rightarrow> app \<Rightarrow> app" where
  "initApp mock svc st =
     (if mock then st\<lparr>loading := False\<rparr>
      else
        let b1 = log_call (Select ''event_config'') (log_call (Select ''theme_config'') (db st));
            b2 = subscribe ''public:theme_config'' b1;
            b3 = log_call GetSession b2
        in case getSession svc of
             None \<Rightarrow> st\<lparr>db := b3, loading := False\<rparr>
           | Some uid \<Rightarrow>
               (case selectProfile uid b3 of
                  (None, b4) \<Rightarrow> st\<lparr>db := b4, loading := False\<rparr>
                | (Some profile, b4) \<Rightarrow> (loginUser mock profile (st\<lparr>db := b4\<rparr>))\<lparr>loading := False\<rparr>))"

definition appUnmount :: "bool \<Rightarrow> app \<Rightarrow> app" where
  "appUnmount mock st =
     (if mock then st else st\<lparr>db := removeChannel ''public:theme_config'' (db st)\<rparr>)"

subsection \<open>The invite and auth flow\<close>

definition handleLogout :: "bool \<Rightarrow> app \<Rightarrow> app" where
  "handleLogout mock st =
     (let st1 = (if mock then st else st\<lparr>db := log_call SignOut (db st)\<rparr>) in
      st1\<lparr>user := None, isAdmin := False, inviteCode := [], email := [], password := [],
          view := View_AUTH, authMode := CODE\<rparr>)"

definition validateCode :: "bool \<Rightarrow> string \<Rightarrow> backend \<Rightarrow> (error + InviteCode) \<times> backend" where
  "validateCode mock c b =
     (if mock then
        (if c = ''ADMIN-SETUP''
         then (Inr \<lparr>code = c, segment = ADMIN, is_used = False, used_by = None\<rparr>, b)
         else (Inr \<lparr>code = c, segment = YOUNG, is_used = False, used_by = None\<rparr>, b))
      else if c = ''ADMIN-SETUP''
      then (Inr \<lparr>code = c, segment = ADMIN, is_used = False, used_by = None\<rparr>, b)
      else
        (case selectInvite c b of
           (None, b1) \<Rightarrow> (Inl InvalidCode, b1)
         | (Some invite, b1) \<Rightarrow>
             if is_used invite then (Inl AlreadyUsed, b1) else (Inr invite, b1)))"

text \<open>The \<open>catch\<close> block of both handlers.\<close>

definition failWith :: "error \<Rightarrow> app \<Rightarrow> app" where
  "failWith e st = st\<lparr>authError := Some e, loading := False\<rparr>"

definition handleAuth :: "bool \<Rightarrow> app \<Rightarrow> app" where
  "handleAuth mock st =
     (if inviteCode st = [] then st\<lparr>authError := Some MissingCode\<rparr>
      else
        let st1 = st\<lparr>loading := True, authError := None\<rparr>;
            c = toUpperCase (inviteCode st1)
        in case validateCode mock c (db st1) of
             (Inl e, b) \<Rightarrow> failWith e (st1\<lparr>db := b\<rparr>)
           | (Inr invite, b) \<Rightarrow> st1\<lparr>db := b, authMode := EMAIL_REQUIRED, loading := False\<rparr>)"

definition createProfileAndEnter :: "bool \<Rightarrow> service \<Rightarrow> string \<Rightarrow> InviteCode \<Rightarrow> app \<Rightarrow> app" where
  "createProfileAndEnter mock svc userId invite st =
     (let isAdminLogin = (segment invite = ADMIN);
          newProfile =
            \<lparr>user_id = userId,
             name = (if isAdminLogin then ''Administrador'' else []),
             profile_segment = segment invite,
             is_celiac = False,
             created_at = now_iso svc,
             table = None\<rparr>
      in if \<not> mock then
           (case selectProfile userId (db st) of
              (None, b1) \<Rightarrow>
                let b2 = insertProfile newProfile b1;
                    b3 = (if \<not> isAdminLogin \<and> code invite \<noteq> ''ADMIN-SETUP''
                          then markInviteUsed (code invite) userId b2 else b2)
                in (loginUser mock newProfile (st\<lparr>db := b3\<rparr>))\<lparr>loading := False\<rparr>
            | (Some existing, b1) \<Rightarrow>
                (loginUser mock existing (st\<lparr>db := b1\<rparr>))\<lparr>loading := False\<rparr>)
         else (loginUser mock newProfile st)\<lparr>loading := False\<rparr>)"

definition handleEmailAuth :: "bool \<Rightarrow> service \<Rightarrow> app \<Rightarrow> app" where
  "handleEmailAuth mock svc st =
     (if email st = [] then st\<lparr>authError := Some MissingEmail\<rparr>
      else
        let st1 = st\<lparr>loading := True, authError := None\<rparr>;
            c = toUpperCase (inviteCode st1)
        in case validateCode mock c (db st1) of
             (Inl e, b) \<Rightarrow> failWith e (st1\<lparr>db := b\<rparr>)
           | (Inr invite, b) \<Rightarrow>
               let st2 = st1\<lparr>db := b\<rparr> in
               if code invite = ''ADMIN-SETUP'' then
                 (if password st2 = [] then st2\<lparr>authError := Some MissingPassword, loading := False\<rparr>
                  else
                    let st3 = st2\<lparr>db := log_call SignInWithPassword (db st2)\<rparr> in
                    case signInWithPassword svc (email st2) (password st2) of
                      AuthError msg ecode \<Rightarrow>
                        if includes_str msg ''Invalid login'' then
                          (let st4 = st3\<lparr>db := log_call SignUp (db st3)\<rparr> in
                           case signUp svc (email st2) (password st2) of
                             AuthError upmsg upcode \<Rightarrow> failWith (BackendError upmsg) st4
                           | AuthUser uid \<Rightarrow> createProfileAndEnter mock svc uid invite st4
                           | AuthNoUser \<Rightarrow> failWith VerifyEmail st4)
                        else failWith (BackendError msg) st3
                    | AuthUser uid \<Rightarrow> createProfileAndEnter mock svc uid invite st3
                    | AuthNoUser \<Rightarrow> st3)
               else
                 (let st3 = st2\<lparr>db := log_call SignInWithOtp (db st2)\<rparr> in
                  case signInWithOtp svc (email st2) c of
                    Some msg \<Rightarrow> failWith (BackendError msg) st3
                  | None \<Rightarrow>
                      st3\<lparr>pending_invite_code := Some c, magicLinkSent := True,
                          loading := False\<rparr>))"

subsection \<open>Admin panel: invite generation, tables, moderation\<close>

definition prefixOf :: "UserSegment \<Rightarrow> string" where
  "prefixOf genSegment = (if genSegment = YOUNG then ''G15-J'' else ''G15-A'')"

text \<open>
  \<open>supabase.from('invites').select('code').like('code', `${prefix}%`)
  .order('code', { ascending: false }).limit(1).single()\<close>: the codes that start with
  the prefix, in descending order of the text, cut to one row.  The order of texts is the
  lexicographic order of their code units.
\<close>

definition selectLastCode :: "string \<Rightarrow> backend \<Rightarrow> string option \<times> backend" where
  "selectLastCode prefix b =
     (single (take 1 (rev (sort (filter (\<lambda>c. startsWith c prefix) (map code (invites b)))))),
      log_call (Select ''invites'') b)"

text \<open>
  Modelled from the spec: the backend's bulk insert into the invites table, whose schema
  is not part of the sources.  The code column is unique (spec sections 3 and 5), so an
  insert that would repeat a code is rejected as a whole and reports an error.
\<close>

definition insertInvites :: "InviteCode list \<Rightarrow> backend \<Rightarrow> bool \<times> backend" where
  "insertInvites rows b =
     (let b1 = log_call (Insert ''invites'') b in
      if distinct (map code rows) \<and> (\<forall>r \<in> set rows. code r \<notin> set (map code (invites b)))
      then (False, b1\<lparr>invites := invites b1 @ rows\<rparr>)
      else (True, b1))"

text \<open>The number the sequence starts at.\<close>

definition startNum :: "bool \<Rightarrow> string \<Rightarrow> backend \<Rightarrow> jsnum \<times> backend" where
  "startNum mock prefix b =
     (if \<not> mock then
        (case selectLastCode prefix b of
           (Some lastCode, b1) \<Rightarrow> (addNum (parseInt (replaceFirst lastCode prefix)) 1, b1)
         | (None, b1) \<Rightarrow> (Num 1, b1))
      else (Num 1, b))"

text \<open>The loop \<open>for (let i = 0; i < genAmount; i++)\<close> that fills \<open>newInvites\<close>.\<close>

definition newInvites :: "string \<Rightarrow> UserSegment \<Rightarrow> jsnum \<Rightarrow> nat \<Rightarrow> InviteCode list" where
  "newInvites prefix genSegment start genAmount =
     map (\<lambda>i. \<lparr>code = prefix @ padStart (toString (addNum start (int i))) 2,
               segment = genSegment, is_used = False, used_by = None\<rparr>)
       [0..<genAmount]"

definition batchGenerate :: "bool \<Rightarrow> UserSegment \<Rightarrow> nat \<Rightarrow> app \<Rightarrow> app" where
  "batchGenerate mock genSegment genAmount st =
     (let prefix = prefixOf genSegment in
      case startNum mock prefix (db st) of
        (start, b1) \<Rightarrow>
          let rows = newInvites prefix genSegment start genAmount in
          if \<not> mock then st\<lparr>db := snd (insertInvites rows b1)\<rparr> else st)"

definition updateTable :: "string \<Rightarrow> string \<Rightarrow> app \<Rightarrow> app" where
  "updateTable userId newTable st =
     (if userId = [] then st
      else st\<lparr>db :=
             log_call (Update ''profiles'')
               ((db st)\<lparr>profiles :=
                    map (\<lambda>p. if user_id p = userId then p\<lparr>table := Some newTable\<rparr> else p)
                      (profiles (db st))\<rparr>)\<rparr>)"

definition fetchPhotos :: "app \<Rightarrow> app" where
  "fetchPhotos st = st\<lparr>db := log_call (Select ''photos'') (db st)\<rparr>"

definition fetchGuests :: "app \<Rightarrow> app" where
  "fetchGuests st = st\<lparr>db := log_call (Select ''invites'') (log_call (Select ''profiles'') (db st))\<rparr>"

definition moderatePhoto :: "nat \<Rightarrow> PhotoStatus \<Rightarrow> app \<Rightarrow> app" where
  "moderatePhoto photoId newStatus st =
     fetchPhotos
       (st\<lparr>db :=
            log_call (Update ''photos'')
              ((db st)\<lparr>photos :=
                   map (\<lambda>p. if photo_id p = photoId then p\<lparr>status := newStatus\<rparr> else p)
                     (photos (db st))\<rparr>)\<rparr>)"

subsection \<open>Photo upload\<close>

text \<open>\<open>file.name.split('.').pop()\<close>: the text after the last dot, the whole name when
  it has no dot.\<close>

definition fileExt :: "string \<Rightarrow> string" where
  "fileExt fname = rev (takeWhile (\<lambda>c. c \<noteq> CHR ''.'') (rev fname))"

definition isAlnum :: "char \<Rightarrow> bool" where
  "isAlnum c =
     (let n = (of_char c :: nat) in
      (97 \<le> n \<and> n \<le> 122) \<or> (65 \<le> n \<and> n \<le> 90) \<or> (48 \<le> n \<and> n \<le> 57))"

text \<open>\<open>file.name.replace(/[^a-zA-Z0-9]/g, '_')\<close>\<close>

definition cleanName :: "string \<Rightarrow> string" where
  "cleanName fname = map (\<lambda>c. if isAlnum c then c else CHR ''_'') fname"

text \<open>\<open>`${user!.user_id}/${Date.now()}_${cleanName}.${fileExt}`\<close>\<close>

definition fileName :: "string \<Rightarrow> nat \<Rightarrow> string \<Rightarrow> string" where
  "fileName userId ms fname =
     userId @ ''/'' @ digits ms @ ''_'' @ cleanName fname @ ''.'' @ fileExt fname"

text \<open>
  Modelled from the spec: the insert into the photos table, whose schema is not part of
  the sources.  The store gives the new row its numeric id (spec section 3), here the
  successor of the highest id it holds.
\<close>

definition insertPhoto :: "string \<Rightarrow> string \<Rightarrow> backend \<Rightarrow> backend" where
  "insertPhoto userId path b =
     log_call (Insert ''photos'')
       (b\<lparr>photos := photos b @
            [\<lparr>photo_id = Suc (fold max (map photo_id (photos b)) 0), photo_user_id = userId,
              storage_path = path, status = PENDING, is_featured = False\<rparr>]\<rparr>)"

text \<open>\<open>files\<close> holds the names of the selected files.  With no signed-in user the
  dereference \<open>user!.user_id\<close> raises inside the \<open>try\<close> and nothing is sent.\<close>

definition handleUpload :: "bool \<Rightarrow> service \<Rightarrow> string list \<Rightarrow> app \<Rightarrow> app" where
  "handleUpload mock svc files st =
     (case files of
        [] \<Rightarrow> st
      | fname # _ \<Rightarrow>
          if mock then st
          else
            (case user st of
               None \<Rightarrow> st
             | Some u \<Rightarrow>
                 let path = fileName (user_id u) (now_ms svc) fname;
                     b1 = log_call (StorageUpload path) (db st)
                 in (case upload svc path of
                       Some uploadError \<Rightarrow> st\<lparr>db := b1\<rparr>
                     | None \<Rightarrow> st\<lparr>db := insertPhoto (user_id u) path b1\<rparr>)))"

subsection \<open>Repeated redemptions\<close>

text \<open>
  One pass through the auth form: the user types a code (the input handler stores it in
  upper case), presses the validate button, fills in email and password and presses the
  button of the email form.  \<open>answers\<close> is how the services answer during the pass.
\<close>

record attempt =
  typedCode :: string
  typedEmail :: string
  typedPassword :: string
  answers :: service

definition redeem :: "bool \<Rightarrow> attempt \<Rightarrow> app \<Rightarrow> app" where
  "redeem mock a st =
     handleEmailAuth mock (answers a)
       ((handleAuth mock (st\<lparr>inviteCode := toUpperCase (typedCode a)\<rparr>))
          \<lparr>email := typedEmail a, password := typedPassword a\<rparr>)"

definition redeemAll :: "bool \<Rightarrow> attempt list \<Rightarrow> app \<Rightarrow> app" where
  "redeemAll mock atts st = foldl (\<lambda>s a. redeem mock a s) st atts"

section \<open>The earlier version of the auth flow\<close>

text \<open>
  The sources hold an earlier version of App.tsx next to the current one.  Its
  \<open>validateCode\<close> is the function above (only the text of one message differs); its
  \<open>handleAuth\<close> tries an anonymous session before asking for an email.
\<close>

definition loginUser_earlier :: "bool \<Rightarrow> UserProfile \<Rightarrow> app \<Rightarrow> app" where
  "loginUser_earlier mock profile st =
     (let st1 = st\<lparr>user := Some profile,
                   isAdmin := (if profile_segment profile = ADMIN \<or> name profile = ''Administrador''
                               then True else isAdmin st),
                   view := View_HOME\<rparr>
      in if mock then st1
         else st1\<lparr>db :=
                subscribe ''public:chat_messages''
                  (log_call (Select ''chat_messages'') (log_call (Select ''rsvps'') (db st1)))\<rparr>)"

definition createProfileAndEnter_earlier ::
    "bool \<Rightarrow> service \<Rightarrow> string \<Rightarrow> InviteCode \<Rightarrow> app \<Rightarrow> app" where
  "createProfileAndEnter_earlier mock svc userId invite st =
     (let isAdminLogin = (segment invite = ADMIN);
          newProfile =
            \<lparr>user_id = userId,
             name = (if isAdminLogin then ''Administrador'' else ''Invitado '' @ code invite),
             profile_segment = segment invite,
             is_celiac = False,
             created_at = now_iso svc,
             table = None\<rparr>
      in if \<not> mock then
           (case selectProfile userId (db st) of
              (None, b1) \<Rightarrow>
                let b2 = insertProfile newProfile b1;
                    b3 = (if \<not> isAdminLogin \<and> code invite \<noteq> ''ADMIN-SETUP''
                          then markInviteUsed (code invite) userId b2 else b2)
                in (loginUser_earlier mock newProfile (st\<lparr>db := b3\<rparr>))\<lparr>loading := False\<rparr>
            | (Some existing, b1) \<Rightarrow>
                (loginUser_earlier mock
                   (newProfile\<lparr>name := name existing,
                               profile_segment := profile_segment existing\<rparr>)
                   (st\<lparr>db := b1\<rparr>))\<lparr>loading := False\<rparr>)
         else (loginUser_earlier mock newProfile st)\<lparr>loading := False\<rparr>)"

definition handleAuth_earlier :: "bool \<Rightarrow> service \<Rightarrow> app \<Rightarrow> app" where
  "handleAuth_earlier mock svc st =
     (if inviteCode st = [] then st\<lparr>authError := Some MissingCode\<rparr>
      else
        let st1 = st\<lparr>loading := True, authError := None\<rparr>;
            c = toUpperCase (inviteCode st1)
        in case validateCode mock c (db st1) of
             (Inl e, b) \<Rightarrow> failWith e (st1\<lparr>db := b\<rparr>)
           | (Inr invite, b) \<Rightarrow>
               let st2 = st1\<lparr>db := b\<rparr> in
               if \<not> mock then
                 (let st3 = st2\<lparr>db := log_call SignInAnonymously (db st2)\<rparr> in
                  case signInAnonymously svc of
                    AuthError msg ecode \<Rightarrow>
                      if includes_str msg ''Anonymous sign-ins are disabled''
                          \<or> ecode = ''not_allowed''
                      then st3\<lparr>authMode := EMAIL_REQUIRED, loading := False\<rparr>
                      else failWith (BackendError msg) st3
                  | AuthUser uid \<Rightarrow> createProfileAndEnter_earlier mock svc uid invite st3
                  | AuthNoUser \<Rightarrow> createProfileAndEnter_earlier mock svc [] invite st3)
               else
                 createProfileAndEnter_earlier mock svc
                   (''mock-user-'' @ digits (now_ms svc)) invite st2)"

section \<open>The application under a given mode\<close>

text \<open>
  The operations a user or the runtime can start.  \<open>perform mock\<close> runs one of them
  under the value \<open>mock\<close> of the module constant \<open>isMockMode\<close>, handing it to the
  functions that read it.
\<close>

datatype operation =
    Op_initApp service
  | Op_appUnmount
  | Op_handleAuth
  | Op_handleEmailAuth service
  | Op_handleLogout
  | Op_batchGenerate UserSegment nat
  | Op_updateTable string string
  | Op_moderatePhoto nat PhotoStatus
  | Op_handleUpload service "string list"

fun perform :: "bool \<Rightarrow> operation \<Rightarrow> app \<Rightarrow> app" where
  "perform mock (Op_initApp svc) st = initApp mock svc st"
| "perform mock Op_appUnmount st = appUnmount mock st"
| "perform mock Op_handleAuth st = handleAuth mock st"
| "perform mock (Op_handleEmailAuth svc) st = handleEmailAuth mock svc st"
| "perform mock Op_handleLogout st = handleLogout mock st"
| "perform mock (Op_batchGenerate genSegment genAmount) st = batchGenerate mock genSegment genAmount st"
| "perform mock (Op_updateTable userId newTable) st = updateTable userId newTable st"
| "perform mock (Op_moderatePhoto photoId newStatus) st = moderatePhoto photoId newStatus st"
| "perform mock (Op_handleUpload svc files) st = handleUpload mock svc files st"

section \<open>The wording of the specification, for comparison\<close>

text \<open>
  The mode gate as the specification words it: mock mode exactly when a configuration
  value is absent or equals a known placeholder string.  The known placeholders are the
  two strings the client falls back to.
\<close>

definition knownPlaceholders :: "string list" where
  "knownPlaceholders = [supabaseUrl None, supabaseAnonKey None]"

definition isMockMode_spec :: "string option \<Rightarrow> string option \<Rightarrow> bool" where
  "isMockMode_spec url key =
     ((case url of None \<Rightarrow> True | Some u \<Rightarrow> u \<in> set knownPlaceholders)
      \<or> (case key of None \<Rightarrow> True | Some k \<Rightarrow> k \<in> set knownPlaceholders))"




section \<open>Concrete states used in the examples\<close>

definition emptyBackend :: backend where
  "emptyBackend = \<lparr>invites = [], profiles = [], photos = [], channels = [], calls = []\<rparr>"

definition freshApp :: app where
  "freshApp =
     \<lparr>user = None, isAdmin = False, loading = True, view = View_AUTH, inviteCode = [],
      authError = None, authMode = CODE, email = [], password = [], magicLinkSent = False,
      pending_invite_code = None, db = emptyBackend\<rparr>"

text \<open>Services that accept every request; the sign-in answers with the user \<open>u1\<close>.\<close>

definition acceptingService :: service where
  "acceptingService =
     \<lparr>getSession = None, signInAnonymously = AuthUser ''u1'',
      signInWithPassword = (\<lambda>e p. AuthUser ''u1''), signUp = (\<lambda>e p. AuthUser ''u1''),
      signInWithOtp = (\<lambda>e c. None), upload = (\<lambda>p. None),
      now_iso = ''2026-03-14T14:00:00.000Z'', now_ms = 5\<rparr>"

definition invite_J01 :: InviteCode where
  "invite_J01 = \<lparr>code = ''G15-J01'', segment = YOUNG, is_used = False, used_by = None\<rparr>"

definition invite_J02_used :: InviteCode where
  "invite_J02_used =
     \<lparr>code = ''G15-J02'', segment = YOUNG, is_used = True, used_by = Some ''u7''\<rparr>"

definition exampleBackend :: backend where
  "exampleBackend = emptyBackend\<lparr>invites := [invite_J01, invite_J02_used]\<rparr>"

definition exampleApp :: app where
  "exampleApp = freshApp\<lparr>db := exampleBackend\<rparr>"

text \<open>The invite that \<open>validateCode\<close> makes up for the reserved code.\<close>

definition sentinelInvite :: InviteCode where
  "sentinelInvite = \<lparr>code = ''ADMIN-SETUP'', segment = ADMIN, is_used = False, used_by = None\<rparr>"

definition adminAttempt :: attempt where
  "adminAttempt =
     \<lparr>typedCode = ''admin-setup'', typedEmail = ''admin@example.org'',
      typedPassword = ''secret'', answers = acceptingService\<rparr>"

text \<open>The rows a generation call is expected to insert for the codes \<open>cs\<close>.\<close>

definition unusedRows :: "UserSegment \<Rightarrow> string list \<Rightarrow> InviteCode list" where
  "unusedRows seg cs = map (\<lambda>c. \<lparr>code = c, segment = seg, is_used = False, used_by = None\<rparr>) cs"

text \<open>The application after its startup in mock mode.\<close>

definition mockApp :: app where
  "mockApp = initApp True acceptingService freshApp"


text \<open>The invites table after the generator has been run once for 100 \<open>YOUNG\<close> codes.\<close>

definition hundredApp :: app where
  "hundredApp = batchGenerate False YOUNG 100 freshApp"

text \<open>A table holding the two codes \<open>G15-J99\<close> and \<open>G15-J100\<close> only.\<close>

definition twoWidthsApp :: app where
  "twoWidthsApp =
     freshApp\<lparr>db := emptyBackend\<lparr>invites := unusedRows YOUNG [''G15-J99'', ''G15-J100'']\<rparr>\<rparr>"

section \<open>Basic facts about the backend operations\<close>

lemma log_call_fields [simp]:
  "invites (log_call c b) = invites b"
  "profiles (log_call c b) = profiles b"
  "photos (log_call c b) = photos b"
  "channels (log_call c b) = channels b"
  "calls (log_call c b) = calls b @ [c]"
  by (simp_all add: log_call_def)

lemma selectProfile_fields [simp]:
  "invites (snd (selectProfile u b)) = invites b"
  "profiles (snd (selectProfile u b)) = profiles b"
  "channels (snd (selectProfile u b)) = channels b"
  "calls (snd (selectProfile u b)) = calls b @ [Select ''profiles'']"
  by (simp_all add: selectProfile_def)

lemma selectInvite_snd [simp]: "snd (selectInvite c b) = log_call (Select ''invites'') b"
  by (simp add: selectInvite_def)

lemma insertProfile_fields [simp]:
  "invites (insertProfile p b) = invites b"
  "channels (insertProfile p b) = channels b"
  "calls (insertProfile p b) = calls b @ [Insert ''profiles'']"
  by (simp_all add: insertProfile_def)

lemma subscribe_fields [simp]:
  "invites (subscribe n b) = invites b"
  "profiles (subscribe n b) = profiles b"
  "channels (subscribe n b) = channels b @ [n]"
  "calls (subscribe n b) = calls b @ [Subscribe n]"
  by (simp_all add: subscribe_def)

lemma loadUserData_invites [simp]: "invites (db (loadUserData mock u st)) = invites (db st)"
  by (simp add: loadUserData_def)

lemma loginUser_invites [simp]: "invites (db (loginUser mock p st)) = invites (db st)"
  by (simp add: loginUser_def Let_def)

lemma loadUserData_mock [simp]: "loadUserData True u st = st"
  by (simp add: loadUserData_def)

lemma loginUser_mock_db [simp]: "db (loginUser True p st) = db st"
  by (simp add: loginUser_def Let_def)

lemma validateCode_online_snd:
  "c \<noteq> ''ADMIN-SETUP'' \<Longrightarrow> snd (validateCode False c b) = log_call (Select ''invites'') b"
  by (simp add: validateCode_def selectInvite_def split: option.splits)

lemma validateCode_sentinel:
  "validateCode mock ''ADMIN-SETUP'' b =
     (Inr \<lparr>code = ''ADMIN-SETUP'', segment = ADMIN, is_used = False, used_by = None\<rparr>, b)"
  by (simp add: validateCode_def)

lemma validateCode_invites [simp]: "invites (snd (validateCode mock c b)) = invites b"
  by (simp add: validateCode_def selectInvite_def split: option.splits)

lemma toUpperCase_sentinel: "toUpperCase ''ADMIN-SETUP'' = ''ADMIN-SETUP''"
  by code_simp

lemma toUpperCase_Nil_iff [simp]: "toUpperCase s = [] \<longleftrightarrow> s = []"
  by (simp add: toUpperCase_def)

lemma validateCode_invitesD:
  "validateCode mock c b = (r, b1) \<Longrightarrow> invites b1 = invites b"
  using validateCode_invites [of mock c b] by simp

lemma createProfileAndEnter_admin_invites:
  "segment invite = ADMIN \<Longrightarrow>
   invites (db (createProfileAndEnter mock svc uid invite st)) = invites (db st)"
  by (cases mock)
    (simp_all add: createProfileAndEnter_def Let_def selectProfile_def split: option.splits)

lemma handleAuth_invites [simp]: "invites (db (handleAuth mock st)) = invites (db st)"
  by (auto simp: handleAuth_def Let_def failWith_def split: prod.splits sum.splits
      dest: validateCode_invitesD)

lemma handleEmailAuth_sentinel_invites:
  assumes "toUpperCase (inviteCode st) = ''ADMIN-SETUP''"
  shows "invites (db (handleEmailAuth mock svc st)) = invites (db st)"
proof (cases "email st = []")
  case True
  then show ?thesis by (simp add: handleEmailAuth_def)
next
  case False
  let ?inv = "\<lparr>code = ''ADMIN-SETUP'', segment = ADMIN, is_used = False, used_by = None\<rparr>"
  have seg: "segment ?inv = ADMIN" by simp
  show ?thesis
    using False assms
    by (simp add: handleEmailAuth_def Let_def validateCode_sentinel failWith_def
        createProfileAndEnter_admin_invites [OF seg]
        split: auth_response.splits)
qed

lemma redeem_sentinel_invites:
  assumes "toUpperCase (typedCode a) = ''ADMIN-SETUP''"
  shows "invites (db (redeem mock a st)) = invites (db st)"
proof -
  let ?st1 = "(handleAuth mock (st\<lparr>inviteCode := toUpperCase (typedCode a)\<rparr>))
          \<lparr>email := typedEmail a, password := typedPassword a\<rparr>"
  have "inviteCode ?st1 = ''ADMIN-SETUP''"
    using assms
    by (simp add: handleAuth_def Let_def validateCode_sentinel toUpperCase_sentinel failWith_def)
  then have "toUpperCase (inviteCode ?st1) = ''ADMIN-SETUP''"
    by (simp add: toUpperCase_sentinel)
  then have "invites (db (handleEmailAuth mock (answers a) ?st1)) = invites (db ?st1)"
    by (rule handleEmailAuth_sentinel_invites)
  then show ?thesis by (simp add: redeem_def)
qed

lemma redeemAll_sentinel_invites:
  "\<forall>a \<in> set atts. toUpperCase (typedCode a) = ''ADMIN-SETUP'' \<Longrightarrow>
   invites (db (redeemAll mock atts st)) = invites (db st)"
proof (induction atts arbitrary: st)
  case Nil
  then show ?case by (simp add: redeemAll_def)
next
  case (Cons a atts)
  have "redeemAll mock (a # atts) st = redeemAll mock atts (redeem mock a st)"
    by (simp add: redeemAll_def)
  with Cons show ?case by (simp add: redeem_sentinel_invites)
qed

lemma adminAttempt_code: "toUpperCase (typedCode adminAttempt) = ''ADMIN-SETUP''"
  unfolding adminAttempt_def by code_simp

lemma exampleApp_invites: "invites (db exampleApp) = [invite_J01, invite_J02_used]"
  by (simp add: exampleApp_def exampleBackend_def freshApp_def)

section \<open>Facts about the string functions\<close>

lemma startsWith_iff: "startsWith s p \<longleftrightarrow> (\<exists>t. s = p @ t)"
  by (induction s p rule: startsWith.induct) auto

lemma includes_str_iff: "includes_str s sub \<longleftrightarrow> (\<exists>a t. s = a @ sub @ t)"
proof (induction s)
  case Nil
  then show ?case by auto
next
  case (Cons c cs)
  show ?case
  proof
    assume "includes_str (c # cs) sub"
    then consider "startsWith (c # cs) sub" | "includes_str cs sub" by auto
    then show "\<exists>a t. c # cs = a @ sub @ t"
    proof cases
      case 1
      then obtain t where "c # cs = sub @ t" by (auto simp: startsWith_iff)
      then have "c # cs = [] @ sub @ t" by simp
      then show ?thesis by blast
    next
      case 2
      with Cons obtain a t where "cs = a @ sub @ t" by auto
      then have "c # cs = (c # a) @ sub @ t" by simp
      then show ?thesis by blast
    qed
  next
    assume "\<exists>a t. c # cs = a @ sub @ t"
    then obtain a t where eq: "c # cs = a @ sub @ t" by auto
    show "includes_str (c # cs) sub"
    proof (cases a)
      case Nil
      with eq have "startsWith (c # cs) sub" by (auto simp: startsWith_iff)
      then show ?thesis by simp
    next
      case (Cons x a')
      with eq have "cs = a' @ sub @ t" by simp
      with Cons.IH have "includes_str cs sub" by blast
      then show ?thesis by simp
    qed
  qed
qed

section \<open>Facts about the invite generator\<close>

lemma single_take1: "single (take 1 xs) = Some m \<Longrightarrow> xs \<noteq> [] \<and> hd xs = m"
  by (cases xs) simp_all

lemma sorted_le_last: "sorted xs \<Longrightarrow> x \<in> set xs \<Longrightarrow> x \<le> last xs"
  by (induction xs) auto

lemma selectLastCode_None:
  "filter (\<lambda>c. startsWith c prefix) (map code (invites b)) = [] \<Longrightarrow>
   selectLastCode prefix b = (None, log_call (Select ''invites'') b)"
  by (simp add: selectLastCode_def)

text \<open>The query answers with the greatest code of the prefix, in the order of texts.\<close>

lemma selectLastCode_Some_max:
  assumes "fst (selectLastCode prefix b) = Some m"
    and "c \<in> set (map code (invites b))" and "startsWith c prefix"
  shows "c \<le> m"
proof -
  let ?cs = "filter (\<lambda>c. startsWith c prefix) (map code (invites b))"
  from assms(1) have "single (take 1 (rev (sort ?cs))) = Some m"
    by (simp add: selectLastCode_def)
  then have hd: "hd (rev (sort ?cs)) = m"
    by (blast dest: single_take1)
  from hd have m: "last (sort ?cs) = m" by (simp add: hd_rev)
  from assms(2,3) have "c \<in> set (sort ?cs)" by simp
  with sorted_le_last [of "sort ?cs" c] m show ?thesis by simp
qed

lemma selectLastCode_snd [simp]:
  "snd (selectLastCode prefix b) = log_call (Select ''invites'') b"
  by (simp add: selectLastCode_def)

lemma rows_from_1:
  "newInvites ''G15-J'' YOUNG (Num 1) 10 =
   unusedRows YOUNG [''G15-J01'', ''G15-J02'', ''G15-J03'', ''G15-J04'', ''G15-J05'',
       ''G15-J06'', ''G15-J07'', ''G15-J08'', ''G15-J09'', ''G15-J10'']"
  by code_simp

lemma rows_from_11:
  "newInvites ''G15-J'' YOUNG (Num 11) 5 =
   unusedRows YOUNG [''G15-J11'', ''G15-J12'', ''G15-J13'', ''G15-J14'', ''G15-J15'']"
  by code_simp

lemma start_after_10: "addNum (parseInt ''10'') 1 = Num 11"
  by code_simp

lemma insertInvites_fresh:
  assumes "distinct (map code rows)"
    and "\<forall>r \<in> set rows. code r \<notin> set (map code (invites b))"
  shows "insertInvites rows b =
    (False, (log_call (Insert ''invites'') b)\<lparr>invites := invites b @ rows\<rparr>)"
  using assms by (simp add: insertInvites_def Let_def)

lemma code_unusedRows [simp]: "map code (unusedRows seg cs) = cs"
  by (simp add: unusedRows_def comp_def)

section \<open>Facts about decimal digits and the upload path\<close>










lemma fileExt_no_dot: "CHR ''.'' \<notin> set (fileExt fname)"
proof -
  have "\<forall>c \<in> set (takeWhile (\<lambda>c. c \<noteq> CHR ''.'') (rev fname)). c \<noteq> CHR ''.''"
    by (auto dest: set_takeWhileD)
  then show ?thesis by (auto simp: fileExt_def)
qed




section \<open>Facts about the realtime channels\<close>



lemma validateCode_channelsD:
  "validateCode mock c b = (r, b1) \<Longrightarrow> channels b1 = channels b"
  by (auto simp: validateCode_def selectInvite_def split: option.splits if_splits prod.splits)

lemma handleAuth_channels [simp]: "channels (db (handleAuth mock st)) = channels (db st)"
  by (auto simp: handleAuth_def Let_def failWith_def split: prod.splits sum.splits
      dest: validateCode_channelsD)



lemma batchGenerate_channels [simp]:
  "channels (db (batchGenerate mock seg n st)) = channels (db st)"
  by (auto simp: batchGenerate_def Let_def startNum_def selectLastCode_def insertInvites_def
      split: prod.splits option.splits)

lemma handleUpload_channels [simp]:
  "channels (db (handleUpload mock svc files st)) = channels (db st)"
  by (auto simp: handleUpload_def Let_def insertPhoto_def split: list.splits option.splits)


section \<open>Facts about validation\<close>

lemma validateCode_Inr_online:
  assumes "c \<noteq> ''ADMIN-SETUP''" and "fst (validateCode False c b) = Inr invite"
  shows "validateCode False c b = (Inr invite, log_call (Select ''invites'') b)"
  using assms validateCode_online_snd [of c b] by (simp add: prod_eq_iff)

section \<open>The claims\<close>

text \<open>
  C1.  In online mode, for every code other than the reserved \<open>ADMIN-SETUP\<close>,
  \<open>validateCode\<close> looks the code up; it fails with \<open>InvalidCode\<close> when no invite row has
  the code and with \<open>AlreadyUsed\<close> when the row's used flag is set.  In both cases the
  backend is left as it was but for the logged read: no invite row and no profile row is
  created or changed, by \<open>validateCode\<close> and by either handler of the auth form that
  runs it.
\<close>

theorem C1_invalid_or_used_code_fails_without_writes:
  assumes "c \<noteq> ''ADMIN-SETUP''"
  shows
   "(filter (\<lambda>r. code r = c) (invites b) = [] \<longrightarrow>
        validateCode False c b = (Inl InvalidCode, log_call (Select ''invites'') b))
    \<and> (filter (\<lambda>r. code r = c) (invites b) = [r] \<and> is_used r \<longrightarrow>
        validateCode False c b = (Inl AlreadyUsed, log_call (Select ''invites'') b))
    \<and> (isl (fst (validateCode False c b)) \<longrightarrow>
        invites (snd (validateCode False c b)) = invites b
        \<and> profiles (snd (validateCode False c b)) = profiles b
        \<and> calls (snd (validateCode False c b)) = calls b @ [Select ''invites''])
    \<and> (db st = b \<and> inviteCode st \<noteq> [] \<and> toUpperCase (inviteCode st) = c
          \<and> fst (validateCode False c b) = Inl e \<longrightarrow>
        db (handleAuth False st) = log_call (Select ''invites'') b
        \<and> authError (handleAuth False st) = Some e
        \<and> authMode (handleAuth False st) = authMode st)
    \<and> (db st = b \<and> email st \<noteq> [] \<and> toUpperCase (inviteCode st) = c
          \<and> fst (validateCode False c b) = Inl e \<longrightarrow>
        db (handleEmailAuth False svc st) = log_call (Select ''invites'') b
        \<and> authError (handleEmailAuth False svc st) = Some e
        \<and> user (handleEmailAuth False svc st) = user st)"
proof -
  have snd_eq: "snd (validateCode False c b) = log_call (Select ''invites'') b"
    using assms by (rule validateCode_online_snd)
  have p1: "filter (\<lambda>r. code r = c) (invites b) = [] \<longrightarrow>
        validateCode False c b = (Inl InvalidCode, log_call (Select ''invites'') b)"
    using assms by (simp add: validateCode_def selectInvite_def)
  have p2: "filter (\<lambda>r. code r = c) (invites b) = [r] \<and> is_used r \<longrightarrow>
        validateCode False c b = (Inl AlreadyUsed, log_call (Select ''invites'') b)"
    using assms by (simp add: validateCode_def selectInvite_def)
  have p3: "isl (fst (validateCode False c b)) \<longrightarrow>
        invites (snd (validateCode False c b)) = invites b
        \<and> profiles (snd (validateCode False c b)) = profiles b
        \<and> calls (snd (validateCode False c b)) = calls b @ [Select ''invites'']"
    by (simp add: snd_eq)
  have p4: "db st = b \<and> inviteCode st \<noteq> [] \<and> toUpperCase (inviteCode st) = c
          \<and> fst (validateCode False c b) = Inl e \<longrightarrow>
        db (handleAuth False st) = log_call (Select ''invites'') b
        \<and> authError (handleAuth False st) = Some e
        \<and> authMode (handleAuth False st) = authMode st"
  proof (intro impI, elim conjE)
    assume h: "db st = b" "inviteCode st \<noteq> []" "toUpperCase (inviteCode st) = c"
      "fst (validateCode False c b) = Inl e"
    from h(4) snd_eq have "validateCode False c b = (Inl e, log_call (Select ''invites'') b)"
      by (simp add: prod_eq_iff)
    with h(1,2,3) show "db (handleAuth False st) = log_call (Select ''invites'') b
        \<and> authError (handleAuth False st) = Some e
        \<and> authMode (handleAuth False st) = authMode st"
      by (simp add: handleAuth_def Let_def failWith_def)
  qed
  have p5: "db st = b \<and> email st \<noteq> [] \<and> toUpperCase (inviteCode st) = c
          \<and> fst (validateCode False c b) = Inl e \<longrightarrow>
        db (handleEmailAuth False svc st) = log_call (Select ''invites'') b
        \<and> authError (handleEmailAuth False svc st) = Some e
        \<and> user (handleEmailAuth False svc st) = user st"
  proof (intro impI, elim conjE)
    assume h: "db st = b" "email st \<noteq> []" "toUpperCase (inviteCode st) = c"
      "fst (validateCode False c b) = Inl e"
    from h(4) snd_eq have "validateCode False c b = (Inl e, log_call (Select ''invites'') b)"
      by (simp add: prod_eq_iff)
    with h(1,2,3) show "db (handleEmailAuth False svc st) = log_call (Select ''invites'') b
        \<and> authError (handleEmailAuth False svc st) = Some e
        \<and> user (handleEmailAuth False svc st) = user st"
      by (simp add: handleEmailAuth_def Let_def failWith_def)
  qed
  from p1 p2 p3 p4 p5 show ?thesis by blast
qed

theorem C1_invalid_or_used_code_witness:
  "validateCode False ''G15-J99'' exampleBackend
      = (Inl InvalidCode, log_call (Select ''invites'') exampleBackend)
   \<and> validateCode False ''G15-J02'' exampleBackend
      = (Inl AlreadyUsed, log_call (Select ''invites'') exampleBackend)
   \<and> invites (db (handleAuth False (exampleApp\<lparr>inviteCode := ''G15-J99''\<rparr>)))
      = [invite_J01, invite_J02_used]
   \<and> authError (handleAuth False (exampleApp\<lparr>inviteCode := ''G15-J99''\<rparr>)) = Some InvalidCode
   \<and> db (handleEmailAuth False acceptingService
           (exampleApp\<lparr>inviteCode := ''G15-J02'', email := ''guest@example.org''\<rparr>))
      = log_call (Select ''invites'') exampleBackend
   \<and> authError (handleEmailAuth False acceptingService
           (exampleApp\<lparr>inviteCode := ''G15-J02'', email := ''guest@example.org''\<rparr>))
      = Some AlreadyUsed"
proof -
  have n1: "''G15-J99'' \<noteq> ''ADMIN-SETUP''" and n2: "''G15-J02'' \<noteq> ''ADMIN-SETUP''"
    by simp_all
  have f1: "filter (\<lambda>r. code r = ''G15-J99'') (invites exampleBackend) = []"
    by (simp add: exampleBackend_def emptyBackend_def invite_J01_def invite_J02_used_def)
  have f2: "filter (\<lambda>r. code r = ''G15-J02'') (invites exampleBackend) = [invite_J02_used]
      \<and> is_used invite_J02_used"
    by (simp add: exampleBackend_def emptyBackend_def invite_J01_def invite_J02_used_def)
  have u1: "toUpperCase ''G15-J99'' = ''G15-J99''" and u2: "toUpperCase ''G15-J02'' = ''G15-J02''"
    by code_simp+
  have d: "db exampleApp = exampleBackend"
    by (simp add: exampleApp_def freshApp_def)
  note a = C1_invalid_or_used_code_fails_without_writes
    [OF n1, where b = exampleBackend and e = InvalidCode
      and st = "exampleApp\<lparr>inviteCode := ''G15-J99''\<rparr>"]
  note b = C1_invalid_or_used_code_fails_without_writes
    [OF n2, where b = exampleBackend and r = invite_J02_used and e = AlreadyUsed
      and svc = acceptingService
      and st = "exampleApp\<lparr>inviteCode := ''G15-J02'', email := ''guest@example.org''\<rparr>"]
  from a f1 d u1 have a': "validateCode False ''G15-J99'' exampleBackend
      = (Inl InvalidCode, log_call (Select ''invites'') exampleBackend)
     \<and> db (handleAuth False (exampleApp\<lparr>inviteCode := ''G15-J99''\<rparr>)) = log_call (Select ''invites'') exampleBackend
     \<and> authError (handleAuth False (exampleApp\<lparr>inviteCode := ''G15-J99''\<rparr>)) = Some InvalidCode"
    by simp
  from b f2 d u2 have b': "validateCode False ''G15-J02'' exampleBackend
      = (Inl AlreadyUsed, log_call (Select ''invites'') exampleBackend)
   \<and> db (handleEmailAuth False acceptingService
           (exampleApp\<lparr>inviteCode := ''G15-J02'', email := ''guest@example.org''\<rparr>))
      = log_call (Select ''invites'') exampleBackend
   \<and> authError (handleEmailAuth False acceptingService
           (exampleApp\<lparr>inviteCode := ''G15-J02'', email := ''guest@example.org''\<rparr>))
      = Some AlreadyUsed"
    by simp
  have i: "invites exampleBackend = [invite_J01, invite_J02_used]"
    by (simp add: exampleBackend_def emptyBackend_def)
  from a' b' i show ?thesis by simp
qed

text \<open>
  C2.  The reserved code \<open>ADMIN-SETUP\<close> resolves to an admin-segment invite made up on
  the spot, in either mode and with no backend call (the backend comes back as it was,
  call log included).  Creating the profile for that invite, and any number of passes
  through the auth form with that code, leave the invites table as it was: no row is
  marked used and no redeemer is recorded.
\<close>

theorem C2_sentinel_never_consumes_invite:
  assumes "\<forall>a \<in> set atts. toUpperCase (typedCode a) = ''ADMIN-SETUP''"
  shows "validateCode mock ''ADMIN-SETUP'' b = (Inr sentinelInvite, b)
    \<and> invites (db (createProfileAndEnter mock svc uid sentinelInvite st)) = invites (db st)
    \<and> invites (db (redeemAll mock atts st)) = invites (db st)"
proof -
  have "segment sentinelInvite = ADMIN" by (simp add: sentinelInvite_def)
  then have "invites (db (createProfileAndEnter mock svc uid sentinelInvite st)) = invites (db st)"
    by (rule createProfileAndEnter_admin_invites)
  moreover have "validateCode mock ''ADMIN-SETUP'' b = (Inr sentinelInvite, b)"
    by (simp add: validateCode_sentinel sentinelInvite_def)
  moreover have "invites (db (redeemAll mock atts st)) = invites (db st)"
    using assms by (rule redeemAll_sentinel_invites)
  ultimately show ?thesis by simp
qed

theorem C2_sentinel_witness:
  "toUpperCase (typedCode adminAttempt) = ''ADMIN-SETUP''
   \<and> validateCode False ''ADMIN-SETUP'' exampleBackend = (Inr sentinelInvite, exampleBackend)
   \<and> invites (db (createProfileAndEnter False acceptingService ''u1'' sentinelInvite exampleApp))
       = [invite_J01, invite_J02_used]
   \<and> invites (db (redeemAll False [adminAttempt, adminAttempt] exampleApp))
       = [invite_J01, invite_J02_used]"
proof -
  have h: "\<forall>a \<in> set [adminAttempt, adminAttempt]. toUpperCase (typedCode a) = ''ADMIN-SETUP''"
    by (simp add: adminAttempt_code)
  show ?thesis
    using C2_sentinel_never_consumes_invite [OF h, where mock = False and b = exampleBackend
      and svc = acceptingService and uid = "''u1''" and st = exampleApp] exampleApp_invites
    by (simp add: adminAttempt_code)
qed

text \<open>
  What passing validation gives in mock mode: the current code step accepts every
  non-empty code and shows the email form; the earlier one signs the user in at once.
\<close>

lemma handleAuth_mock_accepts_any_code:
  "inviteCode st \<noteq> [] \<Longrightarrow>
   authMode (handleAuth True st) = EMAIL_REQUIRED \<and> authError (handleAuth True st) = None
   \<and> db (handleAuth True st) = db st"
  by (simp add: handleAuth_def validateCode_def Let_def)

lemma handleAuth_earlier_mock_enters:
  "inviteCode st \<noteq> [] \<Longrightarrow>
   view (handleAuth_earlier True svc st) = View_HOME
   \<and> map_option user_id (user (handleAuth_earlier True svc st))
        = Some (''mock-user-'' @ digits (now_ms svc))
   \<and> db (handleAuth_earlier True svc st) = db st"
  by (simp add: handleAuth_earlier_def validateCode_def Let_def createProfileAndEnter_earlier_def
      loginUser_earlier_def)



text \<open>
  C4, as stated, fails: a URL that merely contains the word \<open>placeholder\<close> puts the
  application in mock mode although it equals no known placeholder string.
\<close>

theorem C4_counterexample:
  "isMockMode (Some ''https://placeholder-demo.supabase.co'') (Some ''anon-key'')
   \<and> \<not> isMockMode_spec (Some ''https://placeholder-demo.supabase.co'') (Some ''anon-key'')"
  by (simp add: isMockMode_def falsy_def isMockMode_spec_def knownPlaceholders_def
      supabaseUrl_def supabaseAnonKey_def orElse_def)

text \<open>The access key is not compared with any placeholder.\<close>

lemma isMockMode_ignores_placeholder_key:
  "\<not> isMockMode (Some ''https://abcd.supabase.co'') (Some ''placeholder-key'')
   \<and> isMockMode_spec (Some ''https://abcd.supabase.co'') (Some ''placeholder-key'')"
  by (simp add: isMockMode_def falsy_def isMockMode_spec_def knownPlaceholders_def
      supabaseUrl_def supabaseAnonKey_def orElse_def)

text \<open>
  C4, amended.  Mock mode is a function of the two configuration values alone.  It is
  active whenever the endpoint URL is absent or empty, or the access key is absent or
  empty, or the URL contains the text \<open>placeholder\<close>.  It is inactive when both values
  are present and non-empty and neither contains \<open>placeholder\<close>.
\<close>

theorem C4_mock_mode_gate:
  "(falsy url \<or> falsy key \<or> (\<exists>u. url = Some u \<and> includes_str u ''placeholder'')
      \<longrightarrow> isMockMode url key)
   \<and> (url = Some u \<and> key = Some k \<and> u \<noteq> [] \<and> k \<noteq> []
        \<and> \<not> includes_str u ''placeholder'' \<and> \<not> includes_str k ''placeholder''
      \<longrightarrow> \<not> isMockMode url key)"
  by (auto simp: isMockMode_def falsy_def split: option.splits)

theorem C4_mock_mode_gate_witness:
  "isMockMode None (Some ''anon-key'')
   \<and> isMockMode (Some ''https://abcd.supabase.co'') (Some [])
   \<and> isMockMode (Some ''https://placeholder.supabase.co'') (Some ''anon-key'')
   \<and> \<not> isMockMode (Some ''https://abcd.supabase.co'') (Some ''anon-key'')"
proof -
  have a: "isMockMode None (Some ''anon-key'')"
    using C4_mock_mode_gate [of None "Some ''anon-key''"] by (simp add: falsy_def)
  have b: "isMockMode (Some ''https://abcd.supabase.co'') (Some [])"
    using C4_mock_mode_gate [of "Some ''https://abcd.supabase.co''" "Some []"]
    by (simp add: falsy_def)
  have c: "isMockMode (Some ''https://placeholder.supabase.co'') (Some ''anon-key'')"
    using C4_mock_mode_gate [of "Some ''https://placeholder.supabase.co''" "Some ''anon-key''"]
    by simp
  have d: "\<not> isMockMode (Some ''https://abcd.supabase.co'') (Some ''anon-key'')"
    using C4_mock_mode_gate [of "Some ''https://abcd.supabase.co''" "Some ''anon-key''"
        "''https://abcd.supabase.co''" "''anon-key''"]
    by simp
  from a b c d show ?thesis by simp
qed




text \<open>
  The earlier version of the handler does what C5 describes: after the lookup its next
  call is the anonymous sign-in, and it moves to \<open>EMAIL_REQUIRED\<close> only when the backend
  answers that anonymous sign-ins are disabled.
\<close>

lemma handleAuth_earlier_tries_anonymous_first:
  assumes "inviteCode st \<noteq> []" and "toUpperCase (inviteCode st) = c"
    and "c \<noteq> ''ADMIN-SETUP''" and "fst (validateCode False c (db st)) = Inr invite"
  shows "take (Suc (Suc (length (calls (db st))))) (calls (db (handleAuth_earlier False svc st)))
           = calls (db st) @ [Select ''invites'', SignInAnonymously]
    \<and> (authMode (handleAuth_earlier False svc st) = EMAIL_REQUIRED \<and> authMode st = CODE \<longrightarrow>
          (\<exists>msg ecode. signInAnonymously svc = AuthError msg ecode
             \<and> (includes_str msg ''Anonymous sign-ins are disabled'' \<or> ecode = ''not_allowed'')))"
proof -
  have v: "validateCode False c (db st) = (Inr invite, log_call (Select ''invites'') (db st))"
    using assms(3,4) by (rule validateCode_Inr_online)
  show ?thesis
    using assms(1,2) v
    by (cases "signInAnonymously svc")
      (auto simp: handleAuth_earlier_def Let_def failWith_def createProfileAndEnter_earlier_def
        loginUser_earlier_def selectProfile_def insertProfile_def markInviteUsed_def log_call_def subscribe_def
        split: option.splits)
qed

text \<open>
  C8.  In online mode, generation for \<open>YOUNG\<close> with count 10 on a table that holds no
  code with the prefix \<open>G15-J\<close> inserts exactly \<open>G15-J01\<close> to \<open>G15-J10\<close>, all unused;
  generation with count 5 on a table whose last code for the prefix (the answer of the
  generator's query) is \<open>G15-J10\<close> inserts exactly \<open>G15-J11\<close> to \<open>G15-J15\<close>.
\<close>

theorem C8_young_generation:
  "(filter (\<lambda>c. startsWith c ''G15-J'') (map code (invites (db st))) = [] \<longrightarrow>
      invites (db (batchGenerate False YOUNG 10 st)) =
        invites (db st) @
        unusedRows YOUNG [''G15-J01'', ''G15-J02'', ''G15-J03'', ''G15-J04'', ''G15-J05'',
          ''G15-J06'', ''G15-J07'', ''G15-J08'', ''G15-J09'', ''G15-J10''])
   \<and> (fst (selectLastCode ''G15-J'' (db st)) = Some ''G15-J10'' \<longrightarrow>
      invites (db (batchGenerate False YOUNG 5 st)) =
        invites (db st) @
        unusedRows YOUNG [''G15-J11'', ''G15-J12'', ''G15-J13'', ''G15-J14'', ''G15-J15''])"
proof (intro conjI impI)
  let ?b1 = "log_call (Select ''invites'') (db st)"
  assume none: "filter (\<lambda>c. startsWith c ''G15-J'') (map code (invites (db st))) = []"
  let ?cs = "[''G15-J01'', ''G15-J02'', ''G15-J03'', ''G15-J04'', ''G15-J05'',
          ''G15-J06'', ''G15-J07'', ''G15-J08'', ''G15-J09'', ''G15-J10'']"
  have start: "startNum False ''G15-J'' (db st) = (Num 1, ?b1)"
    by (simp add: startNum_def selectLastCode_None [OF none])
  have pre: "\<forall>c \<in> set ?cs. startsWith c ''G15-J''" by simp
  have fresh: "\<forall>r \<in> set (unusedRows YOUNG ?cs). code r \<notin> set (map code (invites ?b1))"
  proof
    fix r assume "r \<in> set (unusedRows YOUNG ?cs)"
    then have "code r \<in> set ?cs" unfolding unusedRows_def by auto
    with pre have sw: "startsWith (code r) ''G15-J''" by blast
    show "code r \<notin> set (map code (invites ?b1))"
    proof
      assume "code r \<in> set (map code (invites ?b1))"
      then have "code r \<in> set (map code (invites (db st)))" by simp
      with sw have "code r \<in> set (filter (\<lambda>c. startsWith c ''G15-J'') (map code (invites (db st))))"
        by simp
      with none show False by simp
    qed
  qed
  have dist: "distinct (map code (unusedRows YOUNG ?cs))" by simp
  show "invites (db (batchGenerate False YOUNG 10 st)) = invites (db st) @ unusedRows YOUNG ?cs"
    by (simp add: batchGenerate_def prefixOf_def start rows_from_1
        insertInvites_fresh [OF dist fresh])
next
  let ?b1 = "log_call (Select ''invites'') (db st)"
  assume last: "fst (selectLastCode ''G15-J'' (db st)) = Some ''G15-J10''"
  let ?cs = "[''G15-J11'', ''G15-J12'', ''G15-J13'', ''G15-J14'', ''G15-J15'']"
  from last have sel: "selectLastCode ''G15-J'' (db st) = (Some ''G15-J10'', ?b1)"
    by (simp add: prod_eq_iff)
  have start: "startNum False ''G15-J'' (db st) = (Num 11, ?b1)"
    by (simp add: startNum_def sel start_after_10)
  have pre: "\<forall>c \<in> set ?cs. startsWith c ''G15-J'' \<and> \<not> c \<le> ''G15-J10''" by simp
  have fresh: "\<forall>r \<in> set (unusedRows YOUNG ?cs). code r \<notin> set (map code (invites ?b1))"
  proof
    fix r assume "r \<in> set (unusedRows YOUNG ?cs)"
    then have "code r \<in> set ?cs" unfolding unusedRows_def by auto
    with pre have sw: "startsWith (code r) ''G15-J''" and gt: "\<not> code r \<le> ''G15-J10''"
      by blast+
    show "code r \<notin> set (map code (invites ?b1))"
    proof
      assume "code r \<in> set (map code (invites ?b1))"
      then have "code r \<in> set (map code (invites (db st)))" by simp
      from selectLastCode_Some_max [OF last this sw] gt show False by simp
    qed
  qed
  have dist: "distinct (map code (unusedRows YOUNG ?cs))" by simp
  show "invites (db (batchGenerate False YOUNG 5 st)) = invites (db st) @ unusedRows YOUNG ?cs"
    by (simp add: batchGenerate_def prefixOf_def start rows_from_11
        insertInvites_fresh [OF dist fresh])
qed

theorem C8_young_generation_witness:
  "filter (\<lambda>c. startsWith c ''G15-J'') (map code (invites (db freshApp))) = []
   \<and> invites (db (batchGenerate False YOUNG 10 freshApp)) =
        unusedRows YOUNG [''G15-J01'', ''G15-J02'', ''G15-J03'', ''G15-J04'', ''G15-J05'',
          ''G15-J06'', ''G15-J07'', ''G15-J08'', ''G15-J09'', ''G15-J10'']
   \<and> fst (selectLastCode ''G15-J'' (db (batchGenerate False YOUNG 10 freshApp))) = Some ''G15-J10''
   \<and> invites (db (batchGenerate False YOUNG 5 (batchGenerate False YOUNG 10 freshApp))) =
        unusedRows YOUNG [''G15-J01'', ''G15-J02'', ''G15-J03'', ''G15-J04'', ''G15-J05'',
          ''G15-J06'', ''G15-J07'', ''G15-J08'', ''G15-J09'', ''G15-J10'', ''G15-J11'',
          ''G15-J12'', ''G15-J13'', ''G15-J14'', ''G15-J15'']"
proof -
  have e: "invites (db freshApp) = []" by (simp add: freshApp_def emptyBackend_def)
  then have h1: "filter (\<lambda>c. startsWith c ''G15-J'') (map code (invites (db freshApp))) = []"
    by simp
  from C8_young_generation [of freshApp] h1 e
  have ten: "invites (db (batchGenerate False YOUNG 10 freshApp)) =
        unusedRows YOUNG [''G15-J01'', ''G15-J02'', ''G15-J03'', ''G15-J04'', ''G15-J05'',
          ''G15-J06'', ''G15-J07'', ''G15-J08'', ''G15-J09'', ''G15-J10'']"
    by simp
  have h2: "fst (selectLastCode ''G15-J'' (db (batchGenerate False YOUNG 10 freshApp))) = Some ''G15-J10''"
    unfolding selectLastCode_def fst_conv ten code_unusedRows by code_simp
  from C8_young_generation [of "batchGenerate False YOUNG 10 freshApp"] h2 ten
  have fifteen: "invites (db (batchGenerate False YOUNG 5 (batchGenerate False YOUNG 10 freshApp))) =
        unusedRows YOUNG [''G15-J01'', ''G15-J02'', ''G15-J03'', ''G15-J04'', ''G15-J05'',
          ''G15-J06'', ''G15-J07'', ''G15-J08'', ''G15-J09'', ''G15-J10'', ''G15-J11'',
          ''G15-J12'', ''G15-J13'', ''G15-J14'', ''G15-J15'']"
    by (simp add: unusedRows_def)
  from h1 ten h2 fifteen show ?thesis by simp
qed

text \<open>
  C3 does not hold of the generator.  On a table that holds \<open>G15-J99\<close> and \<open>G15-J100\<close>
  the query answers \<open>G15-J99\<close>, the greater text, so the sequence starts at 100 and the
  first code produced is \<open>G15-J100\<close>, which exists; the insert is rejected and the table
  stays as it was.
\<close>

theorem C3_generator_reuses_number_100:
  "map code (invites (db twoWidthsApp)) = [''G15-J99'', ''G15-J100'']
   \<and> fst (selectLastCode ''G15-J'' (db twoWidthsApp)) = Some ''G15-J99''
   \<and> fst (startNum False ''G15-J'' (db twoWidthsApp)) = Num 100
   \<and> map code (newInvites ''G15-J'' YOUNG (Num 100) 10) =
        [''G15-J100'', ''G15-J101'', ''G15-J102'', ''G15-J103'', ''G15-J104'',
         ''G15-J105'', ''G15-J106'', ''G15-J107'', ''G15-J108'', ''G15-J109'']
   \<and> invites (db (batchGenerate False YOUNG 10 twoWidthsApp)) = invites (db twoWidthsApp)"
  unfolding twoWidthsApp_def freshApp_def emptyBackend_def unusedRows_def
  by code_simp

text \<open>
  The generator reaches such a table by itself: one call with count 100 on an empty
  table leaves the codes \<open>G15-J01\<close> to \<open>G15-J100\<close>, and the next call starts at 100
  again.
\<close>

lemma generator_stuck_after_100_codes:
  "fst (startNum False ''G15-J'' (db hundredApp)) = Num 100
   \<and> ''G15-J100'' \<in> set (map code (invites (db hundredApp)))"
  unfolding hundredApp_def freshApp_def emptyBackend_def
  by code_simp

text \<open>Operations that read the flag make no backend call in mock mode.\<close>

lemma gated_operations_silent_in_mock_mode:
  "db (perform True (Op_initApp svc) st) = db st"
  "db (perform True Op_appUnmount st) = db st"
  "db (perform True Op_handleAuth st) = db st"
  "db (perform True Op_handleLogout st) = db st"
  "db (perform True (Op_batchGenerate genSegment genAmount) st) = db st"
  "db (perform True (Op_handleUpload svc files) st) = db st"
  "db (createProfileAndEnter True svc uid invite st) = db st"
  "db (loadUserData True uid st) = db st"
  by (simp_all add: initApp_def appUnmount_def handleAuth_def validateCode_def Let_def
      failWith_def handleLogout_def batchGenerate_def startNum_def handleUpload_def
      createProfileAndEnter_def split: list.splits)

text \<open>
  C6 does not hold of the application.  With mock mode active and no call made so far,
  photo moderation sends an update and a select, table assignment sends an update, and
  the button of the email form sends a sign-in request (a one-time link for an ordinary
  code, a password sign-in for the reserved code).
\<close>

theorem C6_backend_calls_in_mock_mode:
  "calls (db mockApp) = []
   \<and> calls (db (perform True (Op_moderatePhoto 1 APPROVED) mockApp))
        = [Update ''photos'', Select ''photos'']
   \<and> calls (db (perform True (Op_updateTable ''u1'' ''Mesa 4'') mockApp))
        = [Update ''profiles'']
   \<and> calls (db (perform True (Op_handleEmailAuth acceptingService)
                   (mockApp\<lparr>inviteCode := ''ABC'', email := ''guest@example.org''\<rparr>)))
        = [SignInWithOtp]
   \<and> calls (db (perform True (Op_handleEmailAuth acceptingService)
                   (mockApp\<lparr>inviteCode := ''ADMIN-SETUP'', email := ''admin@example.org'',
                            password := ''secret''\<rparr>)))
        = [SignInWithPassword]"
  unfolding mockApp_def freshApp_def emptyBackend_def acceptingService_def
  by code_simp







end
